theory Spec2Isabelle
  imports Complex_Main "HOL-Library.Sublist" "HOL-Library.Char_ord" "HOL-Library.List_Lexorder"
    "HOL-Library.Option_ord" "HOL-Library.Multiset"
begin

section \<open>Text, numbers and cells\<close>

text \<open>
  The dashboard of \<^verbatim>\<open>app.py\<close> works on pandas cells. A text is a \<open>string\<close>; the
  character classes below are the ASCII ones (a character outside ASCII is neither a digit,
  nor white space, nor a letter with a case). Python floats are modelled by the exact
  rationals they approximate, so \<open>(a + b) / 2\<close> is the exact mean.
\<close>

datatype cell = Str string | NaN | PyNone | PyInt int

definition is_digit :: "char \<Rightarrow> bool" where
  "is_digit c = (c \<in> set ''0123456789'')"

definition digit_char :: "nat \<Rightarrow> char" where
  "digit_char d = ''0123456789'' ! d"

fun str_nat :: "nat \<Rightarrow> string" where
  "str_nat n = (if n < 10 then [digit_char n] else str_nat (n div 10) @ [digit_char (n mod 10)])"

declare str_nat.simps [simp del]

text \<open>\<^verbatim>\<open>str(x)\<close>: a string is itself, a missing value prints as \<^verbatim>\<open>nan\<close> or
  \<^verbatim>\<open>None\<close>, an integer prints in decimal.\<close>

fun py_str :: "cell \<Rightarrow> string" where
  "py_str (Str s) = s"
| "py_str NaN = ''nan''"
| "py_str PyNone = ''None''"
| "py_str (PyInt i) = (if i < 0 then CHR ''-'' # str_nat (nat (- i)) else str_nat (nat i))"

text \<open>\<^verbatim>\<open>str.strip()\<close>: white space off both ends.\<close>

definition is_space :: "char \<Rightarrow> bool" where
  "is_space c = (c \<in> set [CHR 0x09, CHR 0x0A, CHR 0x0B, CHR 0x0C, CHR 0x0D,
                          CHR 0x1C, CHR 0x1D, CHR 0x1E, CHR 0x1F, CHR '' ''])"

definition strip :: "string \<Rightarrow> string" where
  "strip s = rev (dropWhile is_space (rev (dropWhile is_space s)))"

subsection \<open>\<^verbatim>\<open>re.findall(r'(\d+(?:\.\d+)?)', text)\<close>\<close>

text \<open>
  One match attempt at the head of the text: the greedy run of digits, then the optional
  group (a point followed by a greedy, non-empty run of digits). The result is the match
  and the rest of the text.
\<close>

definition match_number :: "string \<Rightarrow> (string \<times> string) option" where
  "match_number s =
     (let ds = takeWhile is_digit s; r = dropWhile is_digit s in
      if ds = [] then None
      else (case r of
              [] \<Rightarrow> Some (ds, r)
            | c # r' \<Rightarrow>
                if c = CHR ''.'' \<and> takeWhile is_digit r' \<noteq> []
                then Some (ds @ c # takeWhile is_digit r', dropWhile is_digit r')
                else Some (ds, r)))"

lemma match_number_shorter:
  assumes "match_number s = Some (m, r)"
  shows "length r < length s"
proof -
  have whole: "length (takeWhile is_digit s) + length (dropWhile is_digit s) = length s"
    by (metis length_append takeWhile_dropWhile_id)
  from assms have ne: "takeWhile is_digit s \<noteq> []"
    by (auto simp: match_number_def Let_def split: if_splits)
  then have pos: "0 < length (takeWhile is_digit s)"
    by simp
  from assms ne have "r = dropWhile is_digit s \<or>
      (\<exists>c r'. dropWhile is_digit s = c # r' \<and> r = dropWhile is_digit r')"
    by (auto simp: match_number_def Let_def split: if_splits list.splits)
  then show ?thesis
  proof
    assume "r = dropWhile is_digit s"
    then have "length r = length (dropWhile is_digit s)" by simp
    with whole pos show ?thesis by linarith
  next
    assume "\<exists>c r'. dropWhile is_digit s = c # r' \<and> r = dropWhile is_digit r'"
    then obtain c r' where d: "dropWhile is_digit s = c # r'" and r: "r = dropWhile is_digit r'"
      by blast
    have "length r \<le> length r'"
      unfolding r by (rule length_dropWhile_le)
    moreover have "length r' < length (dropWhile is_digit s)"
      by (simp add: d)
    ultimately show ?thesis using whole by linarith
  qed
qed

text \<open>The scan of \<^verbatim>\<open>findall\<close>: leftmost match first, then on from where it ended;
  a position where no match starts is skipped.\<close>

function findall_numbers :: "string \<Rightarrow> string list" where
  "findall_numbers [] = []"
| "findall_numbers (c # cs) =
     (case match_number (c # cs) of
        None \<Rightarrow> findall_numbers cs
      | Some (m, r) \<Rightarrow> m # findall_numbers r)"
  by pat_completeness auto
termination
  by (relation "measure length") (auto dest: match_number_shorter)

subsection \<open>\<^verbatim>\<open>float(match)\<close>\<close>

definition digit_val :: "char \<Rightarrow> nat" where
  "digit_val c = of_char c - of_char CHR ''0''"

definition nat_of_digits :: "string \<Rightarrow> nat" where
  "nat_of_digits ds = foldl (\<lambda>a c. 10 * a + digit_val c) 0 ds"

text \<open>The value of a match of the pattern: integer part, then the fraction (if any) over
  the power of ten of its length.\<close>

definition py_float :: "string \<Rightarrow> rat" where
  "py_float s =
     (let ip = takeWhile is_digit s; fp = drop 1 (dropWhile is_digit s) in
      of_nat (nat_of_digits ip) + of_nat (nat_of_digits fp) / 10 ^ length fp)"

subsection \<open>The field parsers\<close>

text \<open>The returned Series, as the triple of its \<^verbatim>\<open>min_salary\<close>, \<^verbatim>\<open>max_salary\<close> and
  \<^verbatim>\<open>avg_salary\<close> entries.\<close>

definition process_salary :: "cell \<Rightarrow> rat option \<times> rat option \<times> rat option" where
  "process_salary salary_range =
     (let numbers = findall_numbers (py_str salary_range) in
      if length numbers \<ge> 2 then
        (let mn = py_float (numbers ! 0); mx = py_float (numbers ! 1); av = (mn + mx) / 2 in
         (Some mn, Some mx, Some av))
      else (None, None, None))"

definition process_experience :: "cell \<Rightarrow> rat option" where
  "process_experience experience =
     (let numbers = findall_numbers (py_str experience) in
      if length numbers \<ge> 2 then Some ((py_float (numbers ! 0) + py_float (numbers ! 1)) / 2)
      else if length numbers = 1 then Some (py_float (numbers ! 0))
      else None)"

section \<open>The table and its loader\<close>

text \<open>
  A row of the CSV file as \<^verbatim>\<open>read_csv\<close> delivers it. A text column holds a string or is
  missing (\<open>None\<close>); the two columns handed to the field parsers hold any cell. The two
  date columns of the file are named \<^verbatim>\<open>Posted Date\<close> and \<^verbatim>\<open>Application Deadline\<close>; the
  fields \<open>Posted_Date_text\<close> and \<open>Application_Deadline_text\<close> stand for them.
\<close>

record csv_row =
  Job_ID :: cell
  Job_Title :: "string option"
  Company_Name :: "string option"
  Job_Location :: "string option"
  Job_Type :: "string option"
  Company_Size :: "string option"
  Salary_Range :: cell
  Experience_Required :: cell
  Skills_Required :: "string option"
  Posted_Date_text :: "string option"
  Application_Deadline_text :: "string option"
  Remote_Onsite :: "string option"
  Education_Requirement :: "string option"
  Number_of_Applicants :: cell

text \<open>A time stamp counts nanoseconds from the epoch; a date is a day number. A missing
  time stamp (\<^verbatim>\<open>NaT\<close>) is \<open>None\<close>.\<close>

type_synonym timestamp = int
type_synonym date = int

record posting = csv_row +
  min_salary :: "rat option"
  max_salary :: "rat option"
  avg_salary :: "rat option"
  Experience_Years :: "rat option"
  Posted_Date :: "timestamp option"
  Application_Deadline :: "timestamp option"
  Skills_List :: "string list option"

datatype error = ValueError | TypeError | IndexError

text \<open>\<^verbatim>\<open>pd.to_datetime(column)\<close>. How pandas reads one date text is a parameter \<open>parse\<close>
  (\<open>None\<close>: the text is no date); a text that is no date fails the whole conversion, a
  missing cell becomes \<^verbatim>\<open>NaT\<close>.\<close>

definition to_datetime ::
  "(string \<Rightarrow> timestamp option) \<Rightarrow> string option list \<Rightarrow> error + timestamp option list" where
  "to_datetime parse col =
     (if list_ex (\<lambda>c. case c of None \<Rightarrow> False | Some s \<Rightarrow> parse s = None) col
      then Inl ValueError
      else Inr (map (\<lambda>c. case c of None \<Rightarrow> None | Some s \<Rightarrow> parse s) col))"

text \<open>\<^verbatim>\<open>Series.str.split(',')\<close> on one cell: the pieces between the separators, as they
  stand.\<close>

fun str_split :: "char \<Rightarrow> string \<Rightarrow> string list" where
  "str_split sep [] = [[]]"
| "str_split sep (c # cs) =
     (if c = sep then [] # str_split sep cs
      else (case str_split sep cs of
              [] \<Rightarrow> [[c]]
            | w # ws \<Rightarrow> (c # w) # ws))"

text \<open>\<^verbatim>\<open>load_data\<close>, from the rows read from the file: each step computes one column (or
  three), and the result has the rows of the file with the derived columns added.\<close>

definition load_data ::
  "(string \<Rightarrow> timestamp option) \<Rightarrow> csv_row list \<Rightarrow> error + posting list" where
  "load_data parse df =
     (let salary_info = map (\<lambda>r. process_salary (Salary_Range r)) df;
          experience_years = map (\<lambda>r. process_experience (Experience_Required r)) df
      in case to_datetime parse (map Posted_Date_text df) of
           Inl e \<Rightarrow> Inl e
         | Inr posted_date \<Rightarrow>
             (case to_datetime parse (map Application_Deadline_text df) of
                Inl e \<Rightarrow> Inl e
              | Inr application_deadline \<Rightarrow>
                  (let skills_list = map (\<lambda>r. map_option (str_split CHR '','') (Skills_Required r)) df
                   in Inr (map (\<lambda>i. csv_row.extend (df ! i)
                                 (posting.fields
                                    (fst (salary_info ! i))
                                    (fst (snd (salary_info ! i)))
                                    (snd (snd (salary_info ! i)))
                                    (experience_years ! i)
                                    (posted_date ! i)
                                    (application_deadline ! i)
                                    (skills_list ! i)))
                           [0..<length df]))))"

section \<open>The filters of the sidebar\<close>

text \<open>\<^verbatim>\<open>Series.dt.date\<close>: the day of a time stamp.\<close>

definition dt_date :: "timestamp \<Rightarrow> date" where
  "dt_date t = t div 86400000000000"

text \<open>The comparisons of a column of days with one day, element by element; a missing
  time stamp compares false.\<close>

definition date_ge :: "timestamp option list \<Rightarrow> date \<Rightarrow> bool list" where
  "date_ge col d = map (\<lambda>x. case x of None \<Rightarrow> False | Some t \<Rightarrow> d \<le> dt_date t) col"

definition date_le :: "timestamp option list \<Rightarrow> date \<Rightarrow> bool list" where
  "date_le col d = map (\<lambda>x. case x of None \<Rightarrow> False | Some t \<Rightarrow> dt_date t \<le> d) col"

definition isin :: "'a list \<Rightarrow> 'a list \<Rightarrow> bool list" where
  "isin col vals = map (\<lambda>x. x \<in> set vals) col"

definition series_and :: "bool list \<Rightarrow> bool list \<Rightarrow> bool list" where
  "series_and a b = map (\<lambda>(x, y). x \<and> y) (zip a b)"

text \<open>\<^verbatim>\<open>df[mask]\<close>: the rows whose entry of the mask is true, in the order of the table.\<close>

definition boolean_index :: "'a list \<Rightarrow> bool list \<Rightarrow> 'a list" where
  "boolean_index df m = map fst (filter snd (zip df m))"

text \<open>The mask: \<^verbatim>\<open>date_range\<close> is the tuple the date widget returned, read at the
  indices 0 and 1.\<close>

definition mask ::
  "posting list \<Rightarrow> date list \<Rightarrow> string option list \<Rightarrow> string option list \<Rightarrow> string option list
     \<Rightarrow> error + bool list" where
  "mask df date_range selected_locations selected_sizes selected_types =
     (case date_range of
        d0 # d1 # _ \<Rightarrow>
          Inr (series_and
                (series_and
                  (series_and
                    (series_and (date_ge (map Posted_Date df) d0) (date_le (map Posted_Date df) d1))
                    (isin (map Job_Location df) selected_locations))
                  (isin (map Company_Size df) selected_sizes))
                (isin (map Job_Type df) selected_types))
      | _ \<Rightarrow> Inl IndexError)"

definition filtered_df ::
  "posting list \<Rightarrow> date list \<Rightarrow> string option list \<Rightarrow> string option list \<Rightarrow> string option list
     \<Rightarrow> error + posting list" where
  "filtered_df df date_range selected_locations selected_sizes selected_types =
     (case mask df date_range selected_locations selected_sizes selected_types of
        Inl e \<Rightarrow> Inl e
      | Inr m \<Rightarrow> Inr (boolean_index df m))"

section \<open>Sorting a table by a column\<close>



section \<open>The skills charts\<close>


subsection \<open>Top skills by frequency\<close>





subsection \<open>Highest paying skills\<close>










section \<open>The job search\<close>

text \<open>
  \<^verbatim>\<open>Series.str.contains(search_term, case=False, na=False)\<close> compiles the term as a
  regular expression (the parameter \<^verbatim>\<open>regex\<close> keeps its default) and searches each cell
  for a match, ignoring case; a missing cell gives false. Of the pattern language the
  model covers the ordinary characters, which match themselves up to case, and the point,
  which matches any character but a line feed. A term with any other special character is
  outside the model: \<open>re_compile\<close> is \<open>None\<close> for it.
\<close>

definition lower_char :: "char \<Rightarrow> char" where
  "lower_char c =
     (if CHR ''A'' \<le> c \<and> c \<le> CHR ''Z'' then char_of (of_char c + (32::nat)) else c)"

datatype atom = Lit char | AnyChar

definition re_compile :: "string \<Rightarrow> atom list option" where
  "re_compile pat =
     (if list_ex (\<lambda>c. c \<in> set (CHR 0x5C # ''^$*+?{}[]|()'')) pat then None
      else Some (map (\<lambda>c. if c = CHR ''.'' then AnyChar else Lit c) pat))"

text \<open>A match of the compiled pattern at the head of the text, and at any position.\<close>

fun match_here :: "atom list \<Rightarrow> string \<Rightarrow> bool" where
  "match_here [] s = True"
| "match_here (a # as) [] = False"
| "match_here (Lit c # as) (d # s) = (lower_char c = lower_char d \<and> match_here as s)"
| "match_here (AnyChar # as) (d # s) = (d \<noteq> CHR 0x0A \<and> match_here as s)"

fun re_search :: "atom list \<Rightarrow> string \<Rightarrow> bool" where
  "re_search as [] = match_here as []"
| "re_search as (d # s) = (match_here as (d # s) \<or> re_search as s)"

definition search_cols :: "(posting \<Rightarrow> string option) list" where
  "search_cols = [Job_Title, Company_Name, Job_Location, Skills_Required]"

text \<open>Lines 306 to 313: an empty term leaves the view as it is; otherwise the mask is
  true for a row where any of the four columns matches.\<close>

definition search_results :: "posting list \<Rightarrow> string \<Rightarrow> posting list option" where
  "search_results filtered search_term =
     (if search_term \<noteq> [] then
        (case re_compile search_term of
           None \<Rightarrow> None
         | Some pat \<Rightarrow>
             (let contains = map (\<lambda>col. map (\<lambda>r. case col r of None \<Rightarrow> False
                                                     | Some s \<Rightarrow> re_search pat s) filtered)
                                 search_cols;
                  search_mask = map (\<lambda>i. list_ex (\<lambda>c. c ! i) contains) [0..<length filtered]
              in Some (boolean_index filtered search_mask)))
      else Some filtered)"

text \<open>A term without a special character of the pattern language.\<close>

definition plain_term :: "string \<Rightarrow> bool" where
  "plain_term t = (\<not> list_ex (\<lambda>c. c \<in> set (CHR 0x5C # ''.^$*+?{}[]|()'')) t)"

section \<open>The table on the page and the download\<close>

text \<open>The columns of the loaded table: those of the file (the fourteen the dashboard
  reads, in the order of \<open>csv_row\<close>), then the derived ones in the order \<^verbatim>\<open>load_data\<close>
  adds them.\<close>

definition csv_columns :: "string list" where
  "csv_columns =
     [''Job ID'', ''Job Title'', ''Company Name'', ''Job Location'', ''Job Type'',
      ''Company Size'', ''Salary Range'', ''Experience Required'', ''Skills Required'',
      ''Posted Date'', ''Application Deadline'', ''Remote/Onsite'',
      ''Education Requirement'', ''Number of Applicants'']"

definition df_columns :: "string list" where
  "df_columns =
     csv_columns @ [''min_salary'', ''max_salary'', ''avg_salary''] @
     [''Experience_Years''] @ [''Posted_Date''] @ [''Application_Deadline''] @ [''Skills_List'']"

text \<open>The columns of the table shown on the page (lines 317 to 321).\<close>

definition display_columns :: "string list" where
  "display_columns =
     [''Job Title'', ''Company Name'', ''Job Location'', ''Job Type'', ''Salary Range'',
      ''Experience Required'', ''Posted_Date'', ''Remote/Onsite'', ''Number of Applicants'']"

text \<open>The values of a row, column by column. How the library prints a value (a float, a
  time stamp, a list) is a parameter \<open>render\<close> of the writer.\<close>

datatype field_value =
    Cell cell
  | Text "string option"
  | Number "rat option"
  | Time "timestamp option"
  | Items "string list option"

definition posting_values :: "posting \<Rightarrow> field_value list" where
  "posting_values r =
     [Cell (Job_ID r), Text (Job_Title r), Text (Company_Name r), Text (Job_Location r),
      Text (Job_Type r), Text (Company_Size r), Cell (Salary_Range r),
      Cell (Experience_Required r), Text (Skills_Required r), Text (Posted_Date_text r),
      Text (Application_Deadline_text r), Text (Remote_Onsite r),
      Text (Education_Requirement r), Cell (Number_of_Applicants r),
      Number (min_salary r), Number (max_salary r), Number (avg_salary r),
      Number (Experience_Years r), Time (Posted_Date r), Time (Application_Deadline r),
      Items (Skills_List r)]"

text \<open>One record of the CSV text: a field that holds a comma, a double quote or a line
  feed is put in double quotes, with its double quotes doubled; the fields are joined by
  commas and the record ends with a line feed.\<close>

definition quote_field :: "string \<Rightarrow> string" where
  "quote_field f =
     (if list_ex (\<lambda>c. c \<in> set [CHR '','', CHR 0x22, CHR 0x0A]) f
      then CHR 0x22 # concat (map (\<lambda>c. if c = CHR 0x22 then [c, c] else [c]) f) @ [CHR 0x22]
      else f)"

fun join_fields :: "string list \<Rightarrow> string" where
  "join_fields [] = []"
| "join_fields [f] = f"
| "join_fields (f # g # fs) = f @ CHR '','' # join_fields (g # fs)"

definition write_row :: "string list \<Rightarrow> string" where
  "write_row fs = join_fields (map quote_field fs) @ [CHR 0x0A]"

text \<open>\<^verbatim>\<open>to_csv(index=False)\<close> of a table with the columns \<open>df_columns\<close>: the header, then
  one record per row, in the order of the rows.\<close>

definition csv_records :: "(field_value \<Rightarrow> string) \<Rightarrow> posting list \<Rightarrow> string list list" where
  "csv_records render df = df_columns # map (\<lambda>r. map render (posting_values r)) df"

definition to_csv :: "(field_value \<Rightarrow> string) \<Rightarrow> posting list \<Rightarrow> string" where
  "to_csv render df = concat (map write_row (csv_records render df))"

text \<open>Line 327: the download is the CSV text of the search results.\<close>

definition download :: "(field_value \<Rightarrow> string) \<Rightarrow> posting list \<Rightarrow> string \<Rightarrow> string option" where
  "download render filtered search_term =
     map_option (to_csv render) (search_results filtered search_term)"

section \<open>Example rows\<close>

text \<open>A row of the file with the given location, job type, salary text and skills text,
  and a reading of its date text.\<close>

definition csv_fixture ::
  "string option \<Rightarrow> string option \<Rightarrow> cell \<Rightarrow> string option \<Rightarrow> csv_row" where
  "csv_fixture location job_type salary skills =
     \<lparr>Job_ID = PyInt 1, Job_Title = Some ''Data Analyst'', Company_Name = Some ''Acme'',
      Job_Location = location, Job_Type = job_type, Company_Size = Some ''Large'',
      Salary_Range = salary, Experience_Required = Str ''2-5 years'',
      Skills_Required = skills, Posted_Date_text = Some ''2025-01-15'',
      Application_Deadline_text = None, Remote_Onsite = Some ''Remote'',
      Education_Requirement = Some ''B.Tech'', Number_of_Applicants = PyInt 10\<rparr>"

definition fixture_parse :: "string \<Rightarrow> timestamp option" where
  "fixture_parse s = (if s = ''2025-01-15'' then Some 1736899200000000000 else None)"

section \<open>Properties of the scan\<close>











lemma findall_numbers_no_digit: "\<not> list_ex is_digit s \<Longrightarrow> findall_numbers s = []"
proof (induction s)
  case Nil
  show ?case by simp
next
  case (Cons c cs)
  then have "match_number (c # cs) = None"
    by (simp add: match_number_def)
  with Cons show ?case by simp
qed

subsection \<open>An integer cell prints as its digits\<close>










section \<open>The field parsers: what they return\<close>






section \<open>The loaded table\<close>



lemmas scan_eval = match_number_def is_digit_def py_float_def nat_of_digits_def digit_val_def

lemmas load_eval = load_data_def to_datetime_def fixture_parse_def csv_fixture_def
  process_salary_def process_experience_def scan_eval csv_row.defs posting.defs




text \<open>
  C4. The loader splits the skills text at the commas and stores the pieces as they
  stand: the piece after a comma keeps its leading blank, so the stored sequence differs
  from the trimmed one. The raw text is unchanged.
\<close>

theorem skills_list_not_trimmed:
  "(case load_data fixture_parse [csv_fixture None None NaN (Some ''Python, SQL'')] of
      Inr [r] \<Rightarrow> Skills_List r = Some [''Python'', '' SQL''] \<and>
                 Skills_List r \<noteq> Some (map strip (str_split CHR '','' ''Python, SQL'')) \<and>
                 Skills_Required r = Some ''Python, SQL''
    | _ \<Rightarrow> False) \<and>
   map strip (str_split CHR '','' ''Python, SQL'') = [''Python'', ''SQL'']"
  by (simp add: load_eval strip_def is_space_def)

section \<open>The filtered view\<close>

lemma series_and_map: "series_and (map P xs) (map Q xs) = map (\<lambda>x. P x \<and> Q x) xs"
  by (induction xs) (simp_all add: series_and_def)

lemma boolean_index_map: "boolean_index xs (map P xs) = filter P xs"
  by (induction xs) (simp_all add: boolean_index_def)

text \<open>
  C2. With a date range of a lower and an upper day, the filtered view holds exactly the
  rows whose posting day lies between the two (bounds included), whose location is among
  the selected locations, whose company size is among the selected sizes and whose job
  type is among the selected types, in the order of the table. So it is no longer than
  the table, and with no location selected it is empty whatever the other criteria.
\<close>

theorem filtered_df_rows:
  "(\<exists>view. filtered_df df (lo # hi # rest) locations sizes types = Inr view \<and>
      view = filter (\<lambda>r. (case Posted_Date r of None \<Rightarrow> False
                          | Some t \<Rightarrow> lo \<le> dt_date t \<and> dt_date t \<le> hi) \<and>
                         Job_Location r \<in> set locations \<and>
                         Company_Size r \<in> set sizes \<and>
                         Job_Type r \<in> set types) df \<and>
      length view \<le> length df \<and> subseq view df) \<and>
   filtered_df df (lo # hi # rest) [] sizes types = Inr []"
proof -
  have m: "mask df (lo # hi # rest) ls sizes types =
      Inr (map (\<lambda>r. (case Posted_Date r of None \<Rightarrow> False
                          | Some t \<Rightarrow> lo \<le> dt_date t \<and> dt_date t \<le> hi) \<and>
                         Job_Location r \<in> set ls \<and>
                         Company_Size r \<in> set sizes \<and>
                         Job_Type r \<in> set types) df)" for ls
  proof -
    have "series_and (date_ge (map Posted_Date df) lo) (date_le (map Posted_Date df) hi) =
        map (\<lambda>r. case Posted_Date r of None \<Rightarrow> False
                          | Some t \<Rightarrow> lo \<le> dt_date t \<and> dt_date t \<le> hi) df"
      by (induction df) (simp_all add: series_and_def date_ge_def date_le_def split: option.splits)
    then show ?thesis
      by (simp add: mask_def isin_def comp_def series_and_map conj_assoc)
  qed
  have "filtered_df df (lo # hi # rest) [] sizes types = Inr []"
    by (simp add: filtered_df_def m boolean_index_map)
  moreover have "filtered_df df (lo # hi # rest) locations sizes types =
      Inr (filter (\<lambda>r. (case Posted_Date r of None \<Rightarrow> False
                          | Some t \<Rightarrow> lo \<le> dt_date t \<and> dt_date t \<le> hi) \<and>
                         Job_Location r \<in> set locations \<and>
                         Company_Size r \<in> set sizes \<and>
                         Job_Type r \<in> set types) df)"
    by (simp add: filtered_df_def m boolean_index_map)
  ultimately show ?thesis
    by simp
qed

text \<open>The three rows of the specification's end-to-end example, loaded and then
  filtered to Mumbai: two rows remain, with the averages 8 and 12.\<close>

theorem filtered_df_example:
  "(case load_data fixture_parse
           [csv_fixture (Some ''Mumbai'') (Some ''Remote'') (Str ''6-10 LPA'') None,
            csv_fixture (Some ''Delhi'') (Some ''Onsite'') (Str ''4-8 LPA'') None,
            csv_fixture (Some ''Mumbai'') (Some ''Remote'') (Str ''10-14 LPA'') None] of
      Inr table \<Rightarrow>
        (case filtered_df table [20103, 20103] [Some ''Mumbai''] [Some ''Large'']
                [Some ''Onsite'', Some ''Remote''] of
           Inr view \<Rightarrow> map avg_salary view = [Some 8, Some 12] \<and> length view = 2
         | Inl e \<Rightarrow> False)
    | Inl e \<Rightarrow> False)"
proof -
  obtain table where t: "load_data fixture_parse
           [csv_fixture (Some ''Mumbai'') (Some ''Remote'') (Str ''6-10 LPA'') None,
            csv_fixture (Some ''Delhi'') (Some ''Onsite'') (Str ''4-8 LPA'') None,
            csv_fixture (Some ''Mumbai'') (Some ''Remote'') (Str ''10-14 LPA'') None] = Inr table"
    by (simp add: load_eval)
  then have rows: "map (\<lambda>r. (Posted_Date r, Job_Location r, Company_Size r, Job_Type r, avg_salary r)) table =
      [(Some 1736899200000000000, Some ''Mumbai'', Some ''Large'', Some ''Remote'', Some 8),
       (Some 1736899200000000000, Some ''Delhi'', Some ''Large'', Some ''Onsite'', Some 6),
       (Some 1736899200000000000, Some ''Mumbai'', Some ''Large'', Some ''Remote'', Some 12)]"
    by (auto simp: load_eval)
  then obtain r1 r2 r3 where tb: "table = [r1, r2, r3]"
    by (cases table; cases "tl table"; cases "tl (tl table)") auto
  from filtered_df_rows[of table 20103 20103 "[]" "[Some ''Mumbai'']" "[Some ''Large'']"
      "[Some ''Onsite'', Some ''Remote'']"]
  have "filtered_df table [20103, 20103] [Some ''Mumbai''] [Some ''Large'']
                [Some ''Onsite'', Some ''Remote''] = Inr [r1, r3]"
    using rows unfolding tb by (simp add: dt_date_def)
  moreover have "map avg_salary [r1, r3] = [Some 8, Some 12]"
    using rows unfolding tb by simp
  ultimately show ?thesis
    using t by simp
qed

section \<open>The skills charts: what they show\<close>








lemma str_split_nonempty: "str_split sep s \<noteq> []"
  by (induction s) (auto split: list.splits)


lemma str_split_length: "length (str_split sep s) = Suc (count_list s sep)"
  by (induction s) (auto split: list.splits simp: str_split_nonempty)

















section \<open>The job search: what it finds\<close>

lemma re_compile_plain: "plain_term t \<Longrightarrow> re_compile t = Some (map Lit t)"
  by (auto simp: plain_term_def re_compile_def list_ex_iff)

lemma match_here_Lit:
  "match_here (map Lit t) s = prefix (map lower_char t) (map lower_char s)"
proof (induction t arbitrary: s)
  case Nil
  show ?case by simp
next
  case (Cons c t)
  show ?case by (cases s) (simp_all add: Cons)
qed

lemma re_search_Lit:
  "re_search (map Lit t) s = sublist (map lower_char t) (map lower_char s)"
proof (induction s)
  case Nil
  show ?case by (cases t) simp_all
next
  case (Cons d s)
  have "sublist (map lower_char t) (map lower_char (d # s)) =
      (prefix (map lower_char t) (map lower_char (d # s)) \<or> sublist (map lower_char t) (map lower_char s))"
    by (simp add: sublist_Cons_right)
  with Cons show ?case
    by (simp add: match_here_Lit)
qed

lemma map_over_indices: "map (\<lambda>i. f (xs ! i)) [0..<length xs] = map f xs"
proof -
  have "map (\<lambda>i. f (xs ! i)) [0..<length xs] = map f (map ((!) xs) [0..<length xs])"
    by (simp add: comp_def)
  then show ?thesis
    by (simp only: map_nth)
qed

lemma search_results_compiled:
  assumes "search_term \<noteq> []" and "re_compile search_term = Some pat"
  shows "search_results view search_term =
     Some (filter (\<lambda>r. list_ex (\<lambda>col. case col r of None \<Rightarrow> False | Some s \<Rightarrow> re_search pat s)
                            search_cols) view)"
proof -
  let ?P = "\<lambda>r. list_ex (\<lambda>col. case col r of None \<Rightarrow> False | Some s \<Rightarrow> re_search pat s) search_cols"
  have "map (\<lambda>i. list_ex (\<lambda>c. c ! i)
            (map (\<lambda>col. map (\<lambda>r. case col r of None \<Rightarrow> False | Some s \<Rightarrow> re_search pat s) view)
                 search_cols)) [0..<length view] = map (\<lambda>i. ?P (view ! i)) [0..<length view]"
    by (simp add: list_ex_iff search_cols_def)
  also have "\<dots> = map ?P view"
    by (rule map_over_indices)
  finally show ?thesis
    using assms by (simp add: search_results_def Let_def boolean_index_map)
qed

text \<open>
  A search term without a special character: the empty term returns the view as it is;
  any other returns, in the order of the view, the rows in which one of the four columns
  holds the term as a substring up to the case of letters (a missing cell never does), and
  a term that differs only in case finds the same rows.
\<close>

theorem search_plain_term:
  assumes "plain_term search_term"
  shows "search_results view [] = Some view \<and>
    (\<exists>found. search_results view search_term = Some found \<and>
       (search_term \<noteq> [] \<longrightarrow>
          found = filter (\<lambda>r. list_ex (\<lambda>col. case col r of None \<Rightarrow> False
                     | Some s \<Rightarrow> sublist (map lower_char search_term) (map lower_char s))
                     search_cols) view) \<and>
       subseq found view \<and>
       (\<forall>other. plain_term other \<and> map lower_char other = map lower_char search_term \<longrightarrow>
          search_results view other = Some found))"
proof -
  let ?P = "\<lambda>t r. list_ex (\<lambda>col. case col r of None \<Rightarrow> False
                     | Some s \<Rightarrow> sublist (map lower_char t) (map lower_char s)) search_cols"
  have empty: "search_results view [] = Some view"
    by (simp add: search_results_def)
  have plain: "search_results view t = Some (filter (?P t) view)" if "plain_term t" "t \<noteq> []" for t
    using search_results_compiled[OF that(2) re_compile_plain[OF that(1)], of view]
    by (simp add: re_search_Lit cong: option.case_cong)
  show ?thesis
  proof (cases "search_term = []")
    case True
    have "search_results view other = Some view"
      if "map lower_char other = map lower_char search_term" for other
      using that True empty by simp
    with True empty show ?thesis by simp
  next
    case False
    have "search_results view other = Some (filter (?P search_term) view)"
      if "plain_term other" "map lower_char other = map lower_char search_term" for other
    proof -
      from that(2) False have "other \<noteq> []" by auto
      from plain[OF that(1) this] that(2) show ?thesis
        by (simp cong: option.case_cong)
    qed
    moreover have "subseq (filter (?P search_term) view) view"
      by simp
    ultimately show ?thesis
      using plain[OF assms False] empty False by simp
  qed
qed

text \<open>The example of the specification: \<^verbatim>\<open>PYTHON\<close> and \<^verbatim>\<open>python\<close> find the same
  row.\<close>

theorem search_plain_term_example:
  "plain_term ''PYTHON'' \<and>
   (case load_data fixture_parse
           [csv_fixture (Some ''Mumbai'') (Some ''Remote'') (Str ''6-10 LPA'') (Some ''Python,SQL''),
            csv_fixture (Some ''Delhi'') (Some ''Onsite'') (Str ''4-8 LPA'') None] of
      Inr view \<Rightarrow>
        search_results view ''PYTHON'' = Some (take 1 view) \<and>
        search_results view ''python'' = Some (take 1 view) \<and>
        search_results view [] = Some view
    | Inl e \<Rightarrow> False)"
proof -
  let ?view = "projr (load_data fixture_parse
           [csv_fixture (Some ''Mumbai'') (Some ''Remote'') (Str ''6-10 LPA'') (Some ''Python,SQL''),
            csv_fixture (Some ''Delhi'') (Some ''Onsite'') (Str ''4-8 LPA'') None])"
  have p: "plain_term ''PYTHON''"
    by code_simp
  have ev: "(case load_data fixture_parse
           [csv_fixture (Some ''Mumbai'') (Some ''Remote'') (Str ''6-10 LPA'') (Some ''Python,SQL''),
            csv_fixture (Some ''Delhi'') (Some ''Onsite'') (Str ''4-8 LPA'') None] of
      Inr view \<Rightarrow>
        search_results view ''PYTHON'' = Some (take 1 view) \<and>
        search_results view ''python'' = Some (take 1 view) \<and>
        search_results view [] = Some view
    | Inl e \<Rightarrow> False)"
    by code_simp
  show ?thesis
    by (insert search_plain_term[OF p, of ?view], intro conjI, rule p, rule ev)
qed

text \<open>
  C8. The term is not taken as a substring: the term that is one point is a pattern that
  any character matches, so the search returns a row although none of its four columns
  holds a point.
\<close>

theorem search_point_matches_any_text:
  "(case load_data fixture_parse
           [csv_fixture (Some ''Mumbai'') (Some ''Remote'') (Str ''6-10 LPA'') (Some ''Python,SQL'')] of
      Inr view \<Rightarrow>
        search_results view ''.'' = Some view \<and> length view = 1 \<and>
        list_all (\<lambda>r. list_all (\<lambda>col. case col r of None \<Rightarrow> True
                                       | Some s \<Rightarrow> \<not> sublist ''.'' s) search_cols) view
    | Inl e \<Rightarrow> False)"
  by code_simp

section \<open>The download: what it holds\<close>

text \<open>
  C9 (as amended). The download is the CSV text of the current search results: a header
  record and one record per posting, in the order of the results, comma-separated, with
  every column of the loaded table, the 14 of the file and the 7 derived ones; the 9
  columns of the table on the page are among them.
\<close>

theorem download_all_columns:
  "download render view search_term =
     map_option (\<lambda>found. concat (map write_row (df_columns # map (\<lambda>r. map render (posting_values r)) found)))
       (search_results view search_term) \<and>
   length (csv_records render found) = Suc (length found) \<and>
   hd (csv_records render found) = df_columns \<and>
   map length (csv_records render found) = replicate (Suc (length found)) (length df_columns) \<and>
   length df_columns = 21 \<and> length display_columns = 9 \<and>
   set display_columns \<subseteq> set df_columns"
proof -
  have "download render view search_term =
     map_option (\<lambda>found. concat (map write_row (df_columns # map (\<lambda>r. map render (posting_values r)) found)))
       (search_results view search_term)"
    by (cases "search_results view search_term") (simp_all add: download_def to_csv_def csv_records_def)
  moreover have "map length (csv_records render found) = replicate (Suc (length found)) (length df_columns)"
    by (induction found)
      (simp_all add: csv_records_def posting_values_def df_columns_def csv_columns_def)
  moreover have "length df_columns = 21" "length display_columns = 9"
    by (simp_all add: df_columns_def csv_columns_def display_columns_def)
  moreover have "set display_columns \<subseteq> set df_columns"
    by (simp add: df_columns_def csv_columns_def display_columns_def)
  ultimately show ?thesis
    by (simp add: csv_records_def)
qed

text \<open>A search result of one row, with a rendering that prints the text columns only:
  the header names all 21 columns, and the skills text, which holds a comma, is quoted.\<close>

theorem download_example:
  "(case load_data fixture_parse
           [csv_fixture (Some ''Mumbai'') (Some ''Remote'') (Str ''6-10 LPA'') (Some ''Python,SQL'')] of
      Inr view \<Rightarrow>
        download (\<lambda>v. case v of Text (Some s) \<Rightarrow> s | _ \<Rightarrow> []) view ''python'' =
          Some (''Job ID,Job Title,Company Name,Job Location,Job Type,Company Size,Salary Range,'' @
                ''Experience Required,Skills Required,Posted Date,Application Deadline,Remote/Onsite,'' @
                ''Education Requirement,Number of Applicants,min_salary,max_salary,avg_salary,'' @
                ''Experience_Years,Posted_Date,Application_Deadline,Skills_List'' @ [CHR 0x0A] @
                '',Data Analyst,Acme,Mumbai,Remote,Large,,,'' @ [CHR 0x22] @ ''Python,SQL'' @ [CHR 0x22] @
                '',2025-01-15,,Remote,B.Tech,,,,,,,,'' @ [CHR 0x0A])
    | Inl e \<Rightarrow> False)"
proof -
  let ?view = "projr (load_data fixture_parse
           [csv_fixture (Some ''Mumbai'') (Some ''Remote'') (Str ''6-10 LPA'') (Some ''Python,SQL'')])"
  have ev: "(case load_data fixture_parse
           [csv_fixture (Some ''Mumbai'') (Some ''Remote'') (Str ''6-10 LPA'') (Some ''Python,SQL'')] of
      Inr view \<Rightarrow>
        download (\<lambda>v. case v of Text (Some s) \<Rightarrow> s | _ \<Rightarrow> []) view ''python'' =
          Some (''Job ID,Job Title,Company Name,Job Location,Job Type,Company Size,Salary Range,'' @
                ''Experience Required,Skills Required,Posted Date,Application Deadline,Remote/Onsite,'' @
                ''Education Requirement,Number of Applicants,min_salary,max_salary,avg_salary,'' @
                ''Experience_Years,Posted_Date,Application_Deadline,Skills_List'' @ [CHR 0x0A] @
                '',Data Analyst,Acme,Mumbai,Remote,Large,,,'' @ [CHR 0x22] @ ''Python,SQL'' @ [CHR 0x22] @
                '',2025-01-15,,Remote,B.Tech,,,,,,,,'' @ [CHR 0x0A])
    | Inl e \<Rightarrow> False)"
    by code_simp
  show ?thesis
    by (insert download_all_columns[of "\<lambda>v. case v of Text (Some s) \<Rightarrow> s | _ \<Rightarrow> []" ?view "''python''" ?view],
        rule ev)
qed

text \<open>The header of the download is not the list of the 9 columns shown on the page:
  it has 21 names, \<^verbatim>\<open>Skills_List\<close> among them.\<close>

theorem download_header_not_display_columns:
  "to_csv (\<lambda>v. []) [] =
     ''Job ID,Job Title,Company Name,Job Location,Job Type,Company Size,Salary Range,'' @
     ''Experience Required,Skills Required,Posted Date,Application Deadline,Remote/Onsite,'' @
     ''Education Requirement,Number of Applicants,min_salary,max_salary,avg_salary,'' @
     ''Experience_Years,Posted_Date,Application_Deadline,Skills_List'' @ [CHR 0x0A] \<and>
   ''Skills_List'' \<in> set (hd (csv_records (\<lambda>v. []) [])) \<and>
   ''Skills_List'' \<notin> set display_columns \<and>
   length (hd (csv_records (\<lambda>v. []) [])) = 21 \<and> length display_columns = 9"
  by code_simp

end
